theory Spec2Isabelle
  imports Main "HOL-Library.AList"
begin

section \<open>Python values shared by the report pipelines\<close>

text \<open>
  A raised Python \<^verbatim>\<open>Exception\<close>: its class name and the text \<^verbatim>\<open>str(e)\<close> gives.
  Every pipeline ends in \<^verbatim>\<open>except Exception as e\<close> and reports \<^verbatim>\<open>str(e)\<close>.
\<close>

datatype exn = Raised (cls: string) (msg: string)

definition str :: "exn \<Rightarrow> string" where
  "str e = msg e"

text \<open>
  A Python \<^verbatim>\<open>dict\<close> with string keys is an association list with distinct keys in
  insertion order: \<^verbatim>\<open>d[k] = v\<close> is \<^const>\<open>AList.update\<close> (an existing key keeps its place, a
  new key goes to the end) and \<^verbatim>\<open>d.update(other)\<close> stores the entries of \<^verbatim>\<open>other\<close> one
  after the other.
\<close>

type_synonym 'v dict = "(string \<times> 'v) list"

definition dict_update :: "'v dict \<Rightarrow> 'v dict \<Rightarrow> 'v dict" where
  "dict_update d other = fold (\<lambda>(k, v). AList.update k v) other d"

text \<open>Decimal text of an integer, as an f-string prints a status code.\<close>

definition digit_char :: "nat \<Rightarrow> char" where
  "digit_char n = ''0123456789'' ! (n mod 10)"

function str_nat :: "nat \<Rightarrow> string" where
  "str_nat n = (if n < 10 then [digit_char n] else str_nat (n div 10) @ [digit_char n])"
  by pat_completeness auto
termination
  by (relation "measure (\<lambda>n. n)") auto

declare str_nat.simps [simp del]

definition str_int :: "int \<Rightarrow> string" where
  "str_int i = (if i < 0 then CHR ''-'' # str_nat (nat (- i)) else str_nat (nat i))"

section \<open>The tree flattener (\<^verbatim>\<open>flatten_xml\<close> in \<^verbatim>\<open>Reports/Debt_report.py\<close>)\<close>

text \<open>
  An \<^verbatim>\<open>xml.etree.ElementTree\<close> element: its tag (\<^verbatim>\<open>{namespace}local\<close> for a qualified
  name), its text (\<^verbatim>\<open>None\<close> when the element has none) and its children in document
  order. \<^verbatim>\<open>len(child)\<close> is the number of children.
\<close>

datatype element = Element (tag: string) (text_of: "string option") (children: "element list")

text \<open>\<^verbatim>\<open>s.split(c)\<close> for a one-character separator: never empty, one more piece than separators.\<close>

fun split :: "string \<Rightarrow> char \<Rightarrow> string list" where
  "split [] c = [[]]"
| "split (x # xs) c =
     (if x = c then [] # split xs c
      else (case split xs c of piece # pieces \<Rightarrow> (x # piece) # pieces | [] \<Rightarrow> [[x]]))"

text \<open>
  \<^verbatim>\<open>tag = child.tag.split('}')[1] if '}' in child.tag else child.tag\<close>.
  The index 1 is in range whenever the separator occurs (lemma \<open>split_length\<close> below).
\<close>

definition local_tag :: "string \<Rightarrow> string" where
  "local_tag t = (if CHR ''}'' \<in> set t then split t (CHR ''}'') ! 1 else t)"

text \<open>
  \<^verbatim>\<open>
  def flatten_xml(element, parent_tag=''):
      data = {}
      for child in element:
          tag = child.tag.split('}')[1] if '}' in child.tag else child.tag
          if len(child):
              data.update(flatten_xml(child, tag))
          else:
              data[tag] = child.text
      return data
  \<close>
  \<open>flatten_children\<close> is the \<^verbatim>\<open>for\<close> loop, with \<^verbatim>\<open>data\<close> as its accumulator.
\<close>

fun flatten_xml :: "element \<Rightarrow> string \<Rightarrow> string option dict"
  and flatten_children :: "element list \<Rightarrow> string option dict \<Rightarrow> string option dict" where
  "flatten_xml (Element t x cs) parent_tag = flatten_children cs []"
| "flatten_children [] data = data"
| "flatten_children (child # rest) data =
     (let tag = local_tag (tag child) in
      if length (children child) \<noteq> 0
      then flatten_children rest (dict_update data (flatten_xml child tag))
      else flatten_children rest (AList.update tag (text_of child) data))"

text \<open>
  What one round of the loop merges into \<open>data\<close> for a child: the flattened subtree of a
  child that has children, the single pair of tag and text of a leaf.
\<close>

definition child_fields :: "element \<Rightarrow> string option dict" where
  "child_fields child =
     (let tag = local_tag (tag child) in
      if length (children child) \<noteq> 0 then flatten_xml child tag else [(tag, text_of child)])"

section \<open>The outside world: HTTP replies, clock, file system\<close>

text \<open>
  What \<^verbatim>\<open>requests.get\<close>/\<^verbatim>\<open>put\<close>/\<^verbatim>\<open>post\<close> hands back: the status code, \<^verbatim>\<open>response.text\<close>,
  and what decoding the body gives (\<^verbatim>\<open>response.json()\<close>, or \<^verbatim>\<open>ET.fromstring(response.text)\<close>
  for the XML report), \<open>Inl\<close> when the decoder raises. The call itself may raise instead of
  returning (\<open>Fails\<close>).
\<close>

record 'b response =
  status_code :: int
  body_text :: string
  decoded :: "exn + 'b"

datatype 'b reply = Fails exn | Reply "'b response"

text \<open>
  The JSON values the pipelines look at. \<open>jval\<close> is what sits under \<^verbatim>\<open>"JobId"\<close>;
  \<open>report_json\<close> is a decoded JSON object with the three keys the code reads, each absent
  (\<open>None\<close>) or present. An item is a JSON object with values of some type \<open>'v\<close>.
\<close>

datatype jval = JNull | JStr string | JInt int

fun truthy :: "jval \<Rightarrow> bool" where
  "truthy JNull = False"
| "truthy (JStr s) = (s \<noteq> [])"
| "truthy (JInt n) = (n \<noteq> 0)"

fun str_jval :: "jval \<Rightarrow> string" where
  "str_jval JNull = ''None''"
| "str_jval (JStr s) = s"
| "str_jval (JInt n) = str_int n"

record paging =
  TotalRecords :: "int option"

record 'v report_json =
  JobId :: "jval option"
  Items :: "'v dict list option"
  Paging :: "paging option"

text \<open>\<^verbatim>\<open>d.get("JobId")\<close>: \<^verbatim>\<open>None\<close> for a missing key as for a JSON null.\<close>

definition get_JobId :: "'v report_json \<Rightarrow> jval" where
  "get_JobId d = (case JobId d of None \<Rightarrow> JNull | Some j \<Rightarrow> j)"

text \<open>
  The external API as the replies it gives: the template PUT by template id, the k-th GET of
  the paginated payments report, the transactions GET, the k-th GET of the job-status
  endpoint, the portfolio POST and the k-th GET of the XML report (k counts from 0).
\<close>

record 'v api =
  put_template :: "string \<Rightarrow> unit reply"
  get_payments :: "nat \<Rightarrow> 'v report_json reply"
  get_transactions :: "'v report_json reply"
  get_job :: "nat \<Rightarrow> 'v report_json reply"
  post_portfolio :: "'v report_json reply"
  get_report_xml :: "nat \<Rightarrow> element reply"

text \<open>
  A spreadsheet is its rows; a row is its cells by column name. \<open>Stamp\<close> is a
  \<^verbatim>\<open>datetime\<close>, \<open>StampText\<close> the same instant printed by \<^verbatim>\<open>strftime\<close>.
\<close>

datatype 'v cell = Stamp nat | StampText nat | Text string | Val 'v

type_synonym 'v sheet = "'v cell dict list"

text \<open>
  What the process reads from its host: the base URL from the credentials, the clock
  (\<^verbatim>\<open>datetime.now()\<close> at export, and the rounded \<^verbatim>\<open>time.time() - start_time\<close>), the working
  directory, the byte size of a written sheet, and whether \<^verbatim>\<open>os.makedirs\<close> or
  \<^verbatim>\<open>to_excel\<close> raise.
\<close>

record 'v host =
  base_url :: string
  now :: nat
  elapsed :: nat
  cwd :: string
  xlsx_size :: "'v sheet \<Rightarrow> nat"
  makedirs_fault :: "exn option"
  to_excel_fault :: "exn option"

datatype request = PUT string | POST string | GET string | GET_page string nat nat

text \<open>What a run changes: the requests sent, the sleeps taken, directories and files.\<close>

record 'v world =
  http_log :: "request list"
  sleep_log :: "nat list"
  dirs :: "string set"
  files :: "string \<rightharpoonup> 'v sheet"

definition send :: "request \<Rightarrow> 'v world \<Rightarrow> 'v world" where
  "send r w = w\<lparr>http_log := http_log w @ [r]\<rparr>"

definition sleep :: "nat \<Rightarrow> 'v world \<Rightarrow> 'v world" where
  "sleep secs w = w\<lparr>sleep_log := sleep_log w @ [secs]\<rparr>"

text \<open>Paths are kept without a leading \<^verbatim>\<open>./\<close>, as \<^verbatim>\<open>os.path.normpath\<close> leaves them.\<close>

definition normpath :: "string \<Rightarrow> string" where
  "normpath p = (if take 2 p = ''./'' then drop 2 p else p)"

definition abspath :: "'v host \<Rightarrow> string \<Rightarrow> string" where
  "abspath h p = cwd h @ ''/'' @ normpath p"

definition path_exists :: "'v world \<Rightarrow> string \<Rightarrow> bool" where
  "path_exists w p = (files w (normpath p) \<noteq> None \<or> normpath p \<in> dirs w)"

definition getsize :: "'v host \<Rightarrow> 'v world \<Rightarrow> string \<Rightarrow> nat" where
  "getsize h w p = (case files w (normpath p) of Some f \<Rightarrow> xlsx_size h f | None \<Rightarrow> 0)"

definition makedirs :: "'v host \<Rightarrow> string \<Rightarrow> 'v world \<Rightarrow> (exn + unit) \<times> 'v world" where
  "makedirs h d w =
     (case makedirs_fault h of
        Some e \<Rightarrow> (Inl e, w)
      | None \<Rightarrow> (Inr (), w\<lparr>dirs := insert (normpath d) (dirs w)\<rparr>))"

definition to_excel :: "'v host \<Rightarrow> 'v sheet \<Rightarrow> string \<Rightarrow> 'v world \<Rightarrow> (exn + unit) \<times> 'v world" where
  "to_excel h df p w =
     (case to_excel_fault h of
        Some e \<Rightarrow> (Inl e, w)
      | None \<Rightarrow> (Inr (), w\<lparr>files := (files w)(normpath p \<mapsto> df)\<rparr>))"

text \<open>
  \<^verbatim>\<open>pd.DataFrame(list_of_dicts)\<close>: one row per dict. \<^verbatim>\<open>df.insert(0, col, value)\<close> puts the
  same value first in every row, and raises \<^verbatim>\<open>ValueError\<close> when the column is there already.
\<close>

definition DataFrame :: "'v dict list \<Rightarrow> 'v sheet" where
  "DataFrame items = map (map (\<lambda>(k, v). (k, Val v))) items"

definition insert_col :: "string \<Rightarrow> 'v cell \<Rightarrow> 'v sheet \<Rightarrow> exn + 'v sheet" where
  "insert_col col c df =
     (if \<exists>r \<in> set df. col \<in> fst ` set r
      then Inl (Raised ''ValueError'' (''cannot insert '' @ col @ '', already exists''))
      else Inr (map (\<lambda>r. (col, c) # r) df))"

text \<open>The dict every pipeline returns; a key the dict does not hold is \<open>None\<close>.\<close>

datatype row_count = Rows nat | Unknown

record result =
  success :: bool
  error :: "string option"
  file_path :: "string option"
  file_size :: "nat option"
  records :: "row_count option"
  duration :: "nat option"

definition failed :: "string \<Rightarrow> result" where
  "failed m = \<lparr>success = False, error = Some m, file_path = None, file_size = None,
     records = None, duration = None\<rparr>"

definition succeeded :: "string \<Rightarrow> nat \<Rightarrow> row_count \<Rightarrow> nat \<Rightarrow> result" where
  "succeeded p sz n d = \<lparr>success = True, error = None, file_path = Some p, file_size = Some sz,
     records = Some n, duration = Some d\<rparr>"

section \<open>Payment report (\<^verbatim>\<open>Reports/payment_report.py\<close>)\<close>

definition payment_TEMPLATE_ID :: string where
  "payment_TEMPLATE_ID = ''custom_payment_template''"

definition OUTPUT_FOLDER :: string where
  "OUTPUT_FOLDER = ''Generated Files''"

definition payment_FILENAME :: string where
  "payment_FILENAME = ''Payment_Report.xlsx''"

text \<open>\<^verbatim>\<open>os.path.join(folder, name)\<close> for a relative \<^verbatim>\<open>name\<close>.\<close>

definition path_join :: "string \<Rightarrow> string \<Rightarrow> string" where
  "path_join d f = d @ ''/'' @ f"

text \<open>
  The pagination loop, lines 99 to 113. \<open>k\<close> is the number of GETs of the report URL sent
  so far, so the next reply is \<open>get_payments api k\<close>.
  \<^verbatim>\<open>
  while len(all_items) < total_records:
      current_offset = len(all_items)
      page_params = params.copy()
      page_params["offset"] = current_offset
      page_params["limit"] = limit
      page_response = requests.get(report_url, headers=headers, params=page_params)
      if page_response.status_code == 200:
          page_data = page_response.json()
          if "Items" in page_data and page_data["Items"]:
              all_items.extend(page_data["Items"])
          else:
              break
      else:
          break
  \<close>
\<close>

function paginate ::
  "'v api \<Rightarrow> string \<Rightarrow> int \<Rightarrow> nat \<Rightarrow> 'v dict list \<Rightarrow> nat \<Rightarrow> 'w world
     \<Rightarrow> (exn + 'v dict list) \<times> nat \<times> 'w world" where
  "paginate api report_url total_records limit all_items k w =
     (if int (length all_items) < total_records then
        (let current_offset = length all_items;
             w1 = send (GET_page report_url current_offset limit) w
         in case get_payments api k of
              Fails e \<Rightarrow> (Inl e, Suc k, w1)
            | Reply page_response \<Rightarrow>
                if status_code page_response = 200 then
                  (case decoded page_response of
                     Inl e \<Rightarrow> (Inl e, Suc k, w1)
                   | Inr page_data \<Rightarrow>
                       (case Items page_data of
                          Some page_items \<Rightarrow>
                            if page_items \<noteq> []
                            then paginate api report_url total_records limit
                                   (all_items @ page_items) (Suc k) w1
                            else (Inr all_items, Suc k, w1)
                        | None \<Rightarrow> (Inr all_items, Suc k, w1)))
                else (Inr all_items, Suc k, w1))
      else (Inr all_items, k, w))"
  by pat_completeness auto
termination
  by (relation "measure (\<lambda>(api, report_url, total_records, limit, all_items, k, w).
        nat (total_records - int (length all_items)))") auto

declare paginate.simps [simp del]

text \<open>
  Lines 86 to 113: the first page, then the loop when the reply carries \<^verbatim>\<open>"Paging"\<close>
  (\<^verbatim>\<open>paging.get("TotalRecords", 0)\<close>). The first GET has been sent, so the loop starts at 1.
\<close>

definition collect_items ::
  "'v api \<Rightarrow> string \<Rightarrow> 'v report_json \<Rightarrow> 'w world \<Rightarrow> (exn + 'v dict list) \<times> nat \<times> 'w world" where
  "collect_items api report_url report_data w =
     (case Items report_data of
        None \<Rightarrow> (Inr [], 1, w)
      | Some first_page \<Rightarrow>
          (case Paging report_data of
             None \<Rightarrow> (Inr first_page, 1, w)
           | Some paging \<Rightarrow>
               (let total_records = (case TotalRecords paging of None \<Rightarrow> 0 | Some n \<Rightarrow> n);
                    limit = 100
                in paginate api report_url total_records limit first_page 1 w)))"

text \<open>
  Step 3, lines 115 to 144: the sheet of the items with \<^verbatim>\<open>RunDate\<close> first, or the one-row
  sheet \<^verbatim>\<open>[{"RunDate": datetime.now(), "Message": "No data found"}]\<close>, then the check that
  the file is there.
\<close>

definition payment_export ::
  "'v host \<Rightarrow> 'v dict list \<Rightarrow> 'v world \<Rightarrow> (exn + result) \<times> 'v world" where
  "payment_export h all_items w =
     (case makedirs h OUTPUT_FOLDER w of
        (Inl e, w1) \<Rightarrow> (Inl e, w1)
      | (Inr _, w1) \<Rightarrow>
         (let file_path = path_join OUTPUT_FOLDER payment_FILENAME in
          case (if all_items \<noteq> []
                then insert_col ''RunDate'' (Stamp (now h)) (DataFrame all_items)
                else Inr [[(''RunDate'', Stamp (now h)), (''Message'', Text ''No data found'')]]) of
            Inl e \<Rightarrow> (Inl e, w1)
          | Inr df \<Rightarrow>
             (case to_excel h df file_path w1 of
                (Inl e, w2) \<Rightarrow> (Inl e, w2)
              | (Inr _, w2) \<Rightarrow>
                  if path_exists w2 file_path
                  then (Inr (succeeded (abspath h file_path) (getsize h w2 file_path)
                               (Rows (length df)) (elapsed h)), w2)
                  else (Inr (failed ''Report file was not created''), w2))))"

text \<open>The \<^verbatim>\<open>try\<close> block of \<^verbatim>\<open>generate_payment_report\<close>: \<open>Inl\<close> is an exception leaving it.\<close>

definition payment_try :: "'v api \<Rightarrow> 'v host \<Rightarrow> 'v world \<Rightarrow> (exn + result) \<times> 'v world" where
  "payment_try api h w =
     (let API_URL = base_url h @ ''/reporting/templates/'' @ payment_TEMPLATE_ID;
          w1 = send (PUT API_URL) w
      in case put_template api payment_TEMPLATE_ID of
           Fails e \<Rightarrow> (Inl e, w1)
         | Reply response \<Rightarrow>
             if status_code response \<noteq> 200
             then (Inr (failed (''Failed to create/update payment template. Status: ''
                                 @ str_int (status_code response))), w1)
             else
               (let report_url = base_url h @ ''/reporting/reports/payments/'' @ payment_TEMPLATE_ID;
                    w2 = send (GET_page report_url 0 100) w1
                in case get_payments api 0 of
                     Fails e \<Rightarrow> (Inl e, w2)
                   | Reply report_response \<Rightarrow>
                       if status_code report_response \<noteq> 200
                       then (Inr (failed (''Failed to generate payment report. Status: ''
                                           @ str_int (status_code report_response))), w2)
                       else
                         (case decoded report_response of
                            Inl e \<Rightarrow> (Inl e, w2)
                          | Inr report_data \<Rightarrow>
                              (case collect_items api report_url report_data w2 of
                                 (Inl e, k, w3) \<Rightarrow> (Inl e, w3)
                               | (Inr all_items, k, w3) \<Rightarrow> payment_export h all_items w3))))"

text \<open>
  \<^verbatim>\<open>except Exception as e: return {"success": False, "error": str(e), "file_path": None}\<close>,
  the same in the three pipelines.
\<close>

definition except_Exception :: "(exn + result) \<times> 'w \<Rightarrow> result \<times> 'w" where
  "except_Exception r = (case r of (Inl e, w) \<Rightarrow> (failed (str e), w) | (Inr res, w) \<Rightarrow> (res, w))"

definition generate_payment_report :: "'v api \<Rightarrow> 'v host \<Rightarrow> 'v world \<Rightarrow> result \<times> 'v world" where
  "generate_payment_report api h w = except_Exception (payment_try api h w)"

section \<open>Valuation report (\<^verbatim>\<open>Reports/valuation_report.py\<close>)\<close>

definition valuation_TEMPLATE_ID :: string where
  "valuation_TEMPLATE_ID = ''valuation_caps_only''"

definition valuation_FILENAME :: string where
  "valuation_FILENAME = ''Valuation_Report.xlsx''"

text \<open>Step 1: \<^verbatim>\<open>return response.status_code == 200\<close>.\<close>

definition create_valuation_template ::
  "'v api \<Rightarrow> 'w host \<Rightarrow> string \<Rightarrow> 'w world \<Rightarrow> (exn + bool) \<times> 'w world" where
  "create_valuation_template api h template_id w =
     (let url = base_url h @ ''/reporting/templates/'' @ template_id;
          w1 = send (PUT url) w
      in case put_template api template_id of
           Fails e \<Rightarrow> (Inl e, w1)
         | Reply response \<Rightarrow> (Inr (status_code response = 200), w1))"

text \<open>Step 2: the dict \<^verbatim>\<open>{"job_id": job_id}\<close> or \<^verbatim>\<open>{"data": json_resp}\<close>, or the raise.\<close>

datatype 'v started = Job_id jval | Data "'v report_json"

definition get_transaction_report ::
  "'v api \<Rightarrow> 'w host \<Rightarrow> string \<Rightarrow> 'w world \<Rightarrow> (exn + 'v started) \<times> 'w world" where
  "get_transaction_report api h template_id w =
     (let url = base_url h @ ''/reporting/reports/transactions/'' @ template_id;
          w1 = send (GET url) w
      in case get_transactions api of
           Fails e \<Rightarrow> (Inl e, w1)
         | Reply response \<Rightarrow>
             if status_code response = 200 then
               (case decoded response of
                  Inl e \<Rightarrow> (Inl e, w1)
                | Inr json_resp \<Rightarrow>
                    (let job_id = get_JobId json_resp in
                     if truthy job_id then (Inr (Job_id job_id), w1)
                     else (Inr (Data json_resp), w1)))
             else (Inl (Raised ''Exception''
                          (''Failed to start report job. Status '' @ str_int (status_code response)
                            @ '': '' @ body_text response)), w1))"

text \<open>
  Step 3. \<open>poll_loop\<close> is the \<^verbatim>\<open>for _ in range(retries)\<close> loop with \<open>n\<close> rounds left, \<open>i\<close>
  of them done; leaving the loop raises \<^verbatim>\<open>TimeoutError\<close>.
  \<^verbatim>\<open>
  for _ in tqdm(range(retries), desc="Polling report status", unit="try"):
      response = requests.get(url, headers=poll_headers)
      if response.status_code == 200:
          return response.json()
      elif response.status_code == 202:
          time.sleep(delay)
      else:
          raise Exception(f"Unexpected status: {response.status_code}, {response.text}")
  raise TimeoutError("Report generation timed out.")
  \<close>
\<close>

fun poll_loop ::
  "'v api \<Rightarrow> string \<Rightarrow> nat \<Rightarrow> nat \<Rightarrow> nat \<Rightarrow> 'w world \<Rightarrow> (exn + 'v report_json) \<times> 'w world" where
  "poll_loop api url delay i 0 w =
     (Inl (Raised ''TimeoutError'' ''Report generation timed out.''), w)"
| "poll_loop api url delay i (Suc n) w =
     (let w1 = send (GET url) w
      in case get_job api i of
           Fails e \<Rightarrow> (Inl e, w1)
         | Reply response \<Rightarrow>
             if status_code response = 200 then
               (case decoded response of
                  Inl e \<Rightarrow> (Inl e, w1)
                | Inr payload \<Rightarrow> (Inr payload, w1))
             else if status_code response = 202 then
               poll_loop api url delay (Suc i) n (sleep delay w1)
             else (Inl (Raised ''Exception''
                          (''Unexpected status: '' @ str_int (status_code response)
                            @ '', '' @ body_text response)), w1))"

definition poll_report_status ::
  "'v api \<Rightarrow> 'w host \<Rightarrow> jval \<Rightarrow> nat \<Rightarrow> nat \<Rightarrow> 'w world \<Rightarrow> (exn + 'v report_json) \<times> 'w world" where
  "poll_report_status api h job_id retries delay w =
     (let url = base_url h @ ''/report/'' @ str_jval job_id
      in poll_loop api url delay 0 retries w)"

text \<open>
  Step 4: \<^verbatim>\<open>items = data.get("Items", [])\<close>; \<^verbatim>\<open>if not items: return None, 0\<close>; otherwise
  the sheet with \<^verbatim>\<open>RunDate\<close> first is written and \<^verbatim>\<open>file_path, len(df)\<close> returned.
\<close>

definition export_to_excel ::
  "'v host \<Rightarrow> 'v report_json \<Rightarrow> string \<Rightarrow> 'v world \<Rightarrow> (exn + string option \<times> nat) \<times> 'v world" where
  "export_to_excel h data filename w =
     (case makedirs h OUTPUT_FOLDER w of
        (Inl e, w1) \<Rightarrow> (Inl e, w1)
      | (Inr _, w1) \<Rightarrow>
         (let file_path = path_join OUTPUT_FOLDER filename;
              items = (case Items data of None \<Rightarrow> [] | Some its \<Rightarrow> its)
          in if items = [] then (Inr (None, 0), w1)
             else
               (case insert_col ''RunDate'' (Stamp (now h)) (DataFrame items) of
                  Inl e \<Rightarrow> (Inl e, w1)
                | Inr df \<Rightarrow>
                   (case to_excel h df file_path w1 of
                      (Inl e, w2) \<Rightarrow> (Inl e, w2)
                    | (Inr _, w2) \<Rightarrow> (Inr (Some file_path, length df), w2)))))"

text \<open>The \<^verbatim>\<open>try\<close> block of \<^verbatim>\<open>generate_valuation_report\<close>; the poll uses the defaults 30 and 5.\<close>

definition valuation_try :: "'v api \<Rightarrow> 'v host \<Rightarrow> 'v world \<Rightarrow> (exn + result) \<times> 'v world" where
  "valuation_try api h w =
     (case create_valuation_template api h valuation_TEMPLATE_ID w of
        (Inl e, w1) \<Rightarrow> (Inl e, w1)
      | (Inr created, w1) \<Rightarrow>
          if \<not> created then (Inr (failed ''Template creation failed''), w1)
          else
            (case get_transaction_report api h valuation_TEMPLATE_ID w1 of
               (Inl e, w2) \<Rightarrow> (Inl e, w2)
             | (Inr res, w2) \<Rightarrow>
                 (case (case res of
                          Job_id job_id \<Rightarrow> poll_report_status api h job_id 30 5 w2
                        | Data d \<Rightarrow> (Inr d, w2)) of
                    (Inl e, w3) \<Rightarrow> (Inl e, w3)
                  | (Inr report_data, w3) \<Rightarrow>
                      (case export_to_excel h report_data valuation_FILENAME w3 of
                         (Inl e, w4) \<Rightarrow> (Inl e, w4)
                       | (Inr (file_path', record_count), w4) \<Rightarrow>
                           (case file_path' of
                              Some p \<Rightarrow>
                                if p \<noteq> [] \<and> path_exists w4 p
                                then (Inr (succeeded (abspath h p) (getsize h w4 p)
                                             (Rows record_count) (elapsed h)), w4)
                                else (Inr (failed
                                  ''Report file was not created or contains no data''), w4)
                            | None \<Rightarrow> (Inr (failed
                                  ''Report file was not created or contains no data''), w4))))))"

definition generate_valuation_report :: "'v api \<Rightarrow> 'v host \<Rightarrow> 'v world \<Rightarrow> result \<times> 'v world" where
  "generate_valuation_report api h w = except_Exception (valuation_try api h w)"

section \<open>Debt report (\<^verbatim>\<open>Reports/queuing_report.py\<close>, \<^verbatim>\<open>Reports/Debt_report.py\<close>)\<close>














text \<open>
  The items of the pages \<open>a, \<dots>, b - 1\<close> of a paginated endpoint, in the order served,
  when \<open>pages k\<close> is the item list of its k-th reply.
\<close>

definition served :: "(nat \<Rightarrow> 'a list) \<Rightarrow> nat \<Rightarrow> nat \<Rightarrow> 'a list" where
  "served pages a b = concat (map pages [a..<b])"

section \<open>Sample replies, host and world\<close>







section \<open>Properties of the tree flattener\<close>

lemma split_not_Nil: "split s c \<noteq> []"
  by (induction s) (auto split: list.splits)



lemma split_length: "length (split s c) = Suc (count_list s c)"
  by (induction s) (auto simp: split_not_Nil split: list.splits)

lemma split_index_in_range: "c \<in> set s \<Longrightarrow> 1 < length (split s c)"
  unfolding split_length by (induction s) auto


lemma local_tag_plain: "CHR ''}'' \<notin> set t \<Longrightarrow> local_tag t = t"
  by (simp add: local_tag_def)

lemma map_of_dict_update: "map_of (dict_update d other) = map_of d ++ map_of (rev other)"
  unfolding dict_update_def
  by (induction other arbitrary: d) (auto simp: AList.update_conv')


lemma distinct_dict_update: "distinct (map fst d) \<Longrightarrow> distinct (map fst (dict_update d other))"
  unfolding dict_update_def
  by (induction other arbitrary: d) (auto simp: AList.distinct_update)

lemma dict_update_single: "dict_update d [(k, v)] = AList.update k v d"
  by (simp add: dict_update_def)

lemma flatten_children_step:
  "flatten_children (child # rest) data = flatten_children rest (dict_update data (child_fields child))"
  by (simp add: child_fields_def Let_def dict_update_single)

lemma flatten_children_append:
  "flatten_children (xs @ ys) data = flatten_children ys (flatten_children xs data)"
  by (induction xs arbitrary: data) (simp_all add: Let_def)

lemma distinct_flatten_children:
  "distinct (map fst data) \<Longrightarrow> distinct (map fst (flatten_children cs data))"
  by (induction cs arbitrary: data) (simp_all add: Let_def distinct_dict_update AList.distinct_update)

lemma distinct_flatten_xml: "distinct (map fst (flatten_xml e p))"
  by (cases e) (simp add: distinct_flatten_children)

lemma distinct_child_fields: "distinct (map fst (child_fields c))"
  by (simp add: child_fields_def Let_def distinct_flatten_xml)

lemma map_of_rev_distinct: "distinct (map fst xs) \<Longrightarrow> map_of (rev xs) = map_of xs"
  by (induction xs) (auto simp: map_add_def fun_eq_iff split: option.splits dest: map_of_SomeD intro: rev_image_eqI)

lemma map_of_flatten_children_step:
  "map_of (flatten_children (child # rest) data) =
     map_of (flatten_children rest (dict_update data (child_fields child)))"
  by (simp only: flatten_children_step)

lemma flatten_children_untouched:
  "\<forall>c \<in> set cs. map_of (child_fields c) k = None \<Longrightarrow>
     map_of (flatten_children cs data) k = map_of data k"
proof (induction cs arbitrary: data)
  case Nil
  then show ?case by simp
next
  case (Cons c cs)
  have "map_of (flatten_children (c # cs) data) k = map_of (dict_update data (child_fields c)) k"
    using Cons by (simp only: flatten_children_step) simp
  also have "\<dots> = map_of data k"
    using Cons.prems
    by (simp add: map_of_dict_update map_of_rev_distinct distinct_child_fields map_add_def)
  finally show ?case .
qed

lemma flatten_children_last_writer:
  assumes "map_of (child_fields b) k = Some v"
    and "\<forall>c \<in> set post. map_of (child_fields c) k = None"
  shows "map_of (flatten_children (pre @ b # post) data) k = Some v"
proof -
  let ?d = "flatten_children pre data"
  have "map_of (flatten_children (pre @ b # post) data) k
          = map_of (flatten_children post (dict_update ?d (child_fields b))) k"
    by (simp only: flatten_children_append flatten_children_step)
  also have "\<dots> = map_of (dict_update ?d (child_fields b)) k"
    using assms(2) by (rule flatten_children_untouched)
  also have "\<dots> = Some v"
    using assms(1)
    by (simp add: map_of_dict_update map_of_rev_distinct distinct_child_fields map_add_def)
  finally show ?thesis .
qed

text \<open>
  Claim C6. Last write wins: when two children \<open>a\<close> and \<open>b\<close> of the flattened element both
  produce the field \<open>k\<close>, \<open>b\<close> after \<open>a\<close> in document order, and no child after \<open>b\<close>
  produces \<open>k\<close>, the flattened mapping holds under \<open>k\<close> the value that \<open>b\<close> produced.
\<close>

theorem key_collision_last_write_wins:
  assumes "map_of (child_fields a) k = Some va"
    and "map_of (child_fields b) k = Some vb"
    and "\<forall>c \<in> set post. map_of (child_fields c) k = None"
  shows "map_of (flatten_xml (Element t x (pre @ a # mid @ b # post)) p) k = Some vb"
proof -
  have "map_of (flatten_children ((pre @ a # mid) @ b # post) []) k = Some vb"
    using assms(2,3) by (rule flatten_children_last_writer)
  then show ?thesis by simp
qed







lemma update_new_key: "k \<notin> fst ` set d \<Longrightarrow> AList.update k v d = d @ [(k, v)]"
  by (induction d) auto

lemma flatten_children_leaves:
  "\<forall>c \<in> set cs. children c = [] \<Longrightarrow>
     flatten_children cs data = dict_update data (map (\<lambda>c. (local_tag (tag c), text_of c)) cs)"
  by (induction cs arbitrary: data) (simp_all add: dict_update_def)

lemma dict_update_fresh:
  "distinct (map fst d @ map fst other) \<Longrightarrow> dict_update d other = d @ other"
  unfolding dict_update_def
proof (induction other arbitrary: d)
  case Nil
  then show ?case by simp
next
  case (Cons kv other)
  obtain k v where kv: "kv = (k, v)" by (cases kv)
  have fresh: "k \<notin> fst ` set d" using Cons.prems by (auto simp: kv)
  have "distinct (map fst (d @ [(k, v)]) @ map fst other)"
    using Cons.prems by (auto simp: kv)
  then have "fold (\<lambda>(k, v). AList.update k v) other (d @ [(k, v)]) = (d @ [(k, v)]) @ other"
    by (rule Cons.IH)
  then show ?case
    by (simp add: kv update_new_key [OF fresh])
qed

text \<open>
  Claim C7. For an element whose children are all leaves, flattening gives the mapping
  \<^verbatim>\<open>{tag: text for every child}\<close>, with the tag as the flattener names it (its local part)
  and a later child overriding an earlier one of the same name as a dict display does; when
  the names are distinct the dict is the list of the pairs in document order.
\<close>

theorem flatten_flat_input:
  assumes "\<forall>c \<in> set cs. children c = []"
  shows "map_of (flatten_xml (Element t x cs) p)
           = map_of (rev (map (\<lambda>c. (local_tag (tag c), text_of c)) cs))
       \<and> (distinct (map (\<lambda>c. local_tag (tag c)) cs) \<longrightarrow>
            flatten_xml (Element t x cs) p = map (\<lambda>c. (local_tag (tag c), text_of c)) cs)"
proof -
  let ?pairs = "map (\<lambda>c. (local_tag (tag c), text_of c)) cs"
  have eq: "flatten_xml (Element t x cs) p = dict_update [] ?pairs"
    using assms by (simp add: flatten_children_leaves)
  have "map_of (dict_update [] ?pairs) = map_of (rev ?pairs)"
    by (simp add: map_of_dict_update)
  moreover have "dict_update [] ?pairs = ?pairs" if "distinct (map (\<lambda>c. local_tag (tag c)) cs)"
  proof -
    have "map fst ?pairs = map (\<lambda>c. local_tag (tag c)) cs" by (simp add: comp_def)
    with that have "distinct (map fst [] @ map fst ?pairs)" by (simp add: comp_def)
    then have "dict_update [] ?pairs = [] @ ?pairs" by (rule dict_update_fresh)
    then show ?thesis by simp
  qed
  ultimately show ?thesis using eq by simp
qed

text \<open>Three leaves, one namespaced, one without text.\<close>

theorem flatten_flat_input_witness:
  "children (Element ''Amount'' (Some ''1000'') []) = []
   \<and> children (Element ''{urn:x}Currency'' (Some ''USD'') []) = []
   \<and> children (Element ''Note'' None []) = []
   \<and> flatten_xml (Element ''Loan'' None
        [Element ''Amount'' (Some ''1000'') [], Element ''{urn:x}Currency'' (Some ''USD'') [],
         Element ''Note'' None []]) ''Loan''
      = [(''Amount'', Some ''1000''), (''Currency'', Some ''USD''), (''Note'', None)]"
  using flatten_flat_input [of "[Element ''Amount'' (Some ''1000'') [],
      Element ''{urn:x}Currency'' (Some ''USD'') [], Element ''Note'' None []]" "''Loan''" None "''Loan''"]
  by (simp add: local_tag_def)

text \<open>Two containers that both hold a \<^verbatim>\<open>Rate\<close>, followed by an unrelated leaf.\<close>

theorem key_collision_last_write_wins_witness:
  "map_of (child_fields (Element ''Senior'' None [Element ''Rate'' (Some ''1'') []])) ''Rate'' = Some (Some ''1'')
   \<and> map_of (child_fields (Element ''Junior'' None [Element ''Rate'' (Some ''2'') []])) ''Rate'' = Some (Some ''2'')
   \<and> map_of (child_fields (Element ''Id'' (Some ''7'') [])) ''Rate'' = None
   \<and> map_of (flatten_xml (Element ''Loan'' None
        [Element ''Senior'' None [Element ''Rate'' (Some ''1'') []],
         Element ''Junior'' None [Element ''Rate'' (Some ''2'') []],
         Element ''Id'' (Some ''7'') []]) ''Loan'') ''Rate'' = Some (Some ''2'')"
  using key_collision_last_write_wins [of "Element ''Senior'' None [Element ''Rate'' (Some ''1'') []]"
      "''Rate''" "Some ''1''" "Element ''Junior'' None [Element ''Rate'' (Some ''2'') []]" "Some ''2''"
      "[Element ''Id'' (Some ''7'') []]" "''Loan''" None "[]" "[]" "''Loan''"]
  by (simp add: child_fields_def local_tag_def)

section \<open>Polling the job status (valuation report)\<close>

















section \<open>The retry loop of the debt report\<close>








end
